theory Spec2Isabelle
  imports Main "HOL-Library.Sublist"
begin

section \<open>JavaScript values\<close>

text \<open>
  The handlers of \<^verbatim>\<open>server.mjs\<close> and \<^verbatim>\<open>server.js\<close> work on untyped data: the
  request body, the completion returned by the OpenAI client and the value a failed call
  rejects with. All three are modelled by one type of values. Objects are association
  lists from property names to values (an error object carries its inherited
  \<^verbatim>\<open>message\<close> and \<^verbatim>\<open>name\<close> in the same list). A number is represented by its
  decimal rendering, the string that \<^verbatim>\<open>String(n)\<close> yields: the handlers never compute
  with a number, they only test it for truthiness and interpolate it into a template.
  A character of a string stands for one code unit.
\<close>

datatype jsval =
    JUndefined
  | JNull
  | JBool bool
  | JNum string
  | JStr string
  | JArr "jsval list"
  | JObj "(string \<times> jsval) list"

text \<open>
  Truthiness, as \<^verbatim>\<open>!x\<close> and \<^verbatim>\<open>x || y\<close> test it: \<^verbatim>\<open>undefined\<close>, \<^verbatim>\<open>null\<close>,
  \<^verbatim>\<open>false\<close>, zero (plus or minus: both render as \<^verbatim>\<open>0\<close>), \<^verbatim>\<open>NaN\<close> and the empty
  string are falsy; everything else, every array and object included, is truthy.
\<close>

fun truthy :: "jsval \<Rightarrow> bool" where
  "truthy JUndefined = False"
| "truthy JNull = False"
| "truthy (JBool b) = b"
| "truthy (JNum n) = (n \<noteq> ''0'' \<and> n \<noteq> ''NaN'')"
| "truthy (JStr s) = (s \<noteq> [])"
| "truthy (JArr xs) = True"
| "truthy (JObj kvs) = True"

text \<open>The operator \<^verbatim>\<open>a || b\<close> on values whose evaluation has no effect.\<close>

definition or_else :: "jsval \<Rightarrow> jsval \<Rightarrow> jsval" where
  "or_else a b = (if truthy a then a else b)"

fun nullish :: "jsval \<Rightarrow> bool" where
  "nullish JUndefined = True"
| "nullish JNull = True"
| "nullish v = False"

text \<open>
  Reading a named property of a value that is neither \<^verbatim>\<open>undefined\<close> nor \<^verbatim>\<open>null\<close>.
  An object yields the value stored under the name, or \<^verbatim>\<open>undefined\<close>. The handlers read
  only the names \<^verbatim>\<open>callType\<close>, \<^verbatim>\<open>persona\<close>, \<^verbatim>\<open>notes\<close>, \<^verbatim>\<open>goal\<close>,
  \<^verbatim>\<open>choices\<close>, \<^verbatim>\<open>message\<close>, \<^verbatim>\<open>content\<close>, \<^verbatim>\<open>status\<close>, \<^verbatim>\<open>response\<close>,
  \<^verbatim>\<open>data\<close>, \<^verbatim>\<open>error\<close> and \<^verbatim>\<open>name\<close>; none of them is an index, \<^verbatim>\<open>length\<close> or
  a method of a built-in prototype, so on an array, a string, a number or a boolean each
  of them is \<^verbatim>\<open>undefined\<close>.
\<close>

fun property :: "string \<Rightarrow> jsval \<Rightarrow> jsval" where
  "property k (JObj kvs) = (case map_of kvs k of Some v \<Rightarrow> v | None \<Rightarrow> JUndefined)"
| "property k v = JUndefined"

text \<open>
  The errors the engine itself raises in these handlers are all of class
  \<^verbatim>\<open>TypeError\<close>: reading a property of \<^verbatim>\<open>undefined\<close> or \<^verbatim>\<open>null\<close>, and converting
  to a string an object that has no usable \<^verbatim>\<open>toString\<close>.
\<close>

datatype fault = ReadOfNullish string | NotPrimitive

text \<open>\<^verbatim>\<open>v.k\<close>: the plain property access, which fails on \<^verbatim>\<open>undefined\<close> and \<^verbatim>\<open>null\<close>.\<close>

definition get_prop :: "string \<Rightarrow> jsval \<Rightarrow> fault + jsval" where
  "get_prop k v = (if nullish v then Inl (ReadOfNullish k) else Inr (property k v))"

text \<open>\<^verbatim>\<open>v?.k\<close>: optional chaining, \<^verbatim>\<open>undefined\<close> where \<^verbatim>\<open>v\<close> is \<^verbatim>\<open>undefined\<close> or \<^verbatim>\<open>null\<close>.\<close>

definition opt_prop :: "string \<Rightarrow> jsval \<Rightarrow> jsval" where
  "opt_prop k v = (if nullish v then JUndefined else property k v)"

text \<open>
  \<^verbatim>\<open>v?.[0]\<close>: the first element of an array, the first code unit of a string (as a
  string of length one), the property \<^verbatim>\<open>"0"\<close> of an object, and \<^verbatim>\<open>undefined\<close> where
  there is none and on every other value.
\<close>

fun opt_index0 :: "jsval \<Rightarrow> jsval" where
  "opt_index0 (JArr xs) = (case xs of [] \<Rightarrow> JUndefined | x # _ \<Rightarrow> x)"
| "opt_index0 (JStr s) = (case s of [] \<Rightarrow> JUndefined | c # _ \<Rightarrow> JStr [c])"
| "opt_index0 (JObj kvs) = property ''0'' (JObj kvs)"
| "opt_index0 v = JUndefined"

text \<open>\<^verbatim>\<open>Array.prototype.join\<close> on strings.\<close>

fun join :: "string \<Rightarrow> string list \<Rightarrow> string" where
  "join sep [] = []"
| "join sep [x] = x"
| "join sep (x # y # ys) = x @ sep @ join sep (y # ys)"

text \<open>
  \<^verbatim>\<open>ToString\<close>, which a template literal applies to each substitution and
  \<^verbatim>\<open>JSON.parse\<close> to its argument. An array is joined with commas, with \<^verbatim>\<open>undefined\<close>
  and \<^verbatim>\<open>null\<close> elements rendered empty. A plain object inherits
  \<^verbatim>\<open>Object.prototype.toString\<close> and renders as \<^verbatim>\<open>[object Object]\<close>, unless it has a
  property \<^verbatim>\<open>toString\<close> of its own: data is never callable, the inherited
  \<^verbatim>\<open>valueOf\<close> (or an own one) yields no primitive either, and the conversion throws.
  \<open>None\<close> is that \<^verbatim>\<open>TypeError\<close>.
\<close>

fun to_string :: "jsval \<Rightarrow> string option" where
  "to_string JUndefined = Some ''undefined''"
| "to_string JNull = Some ''null''"
| "to_string (JBool b) = Some (if b then ''true'' else ''false'')"
| "to_string (JNum n) = Some n"
| "to_string (JStr s) = Some s"
| "to_string (JArr xs) =
     map_option (join '','')
       (those (map (\<lambda>x. if nullish x then Some [] else to_string x) xs))"
| "to_string (JObj kvs) =
     (if map_of kvs ''toString'' = None then Some ''[object Object]'' else None)"

section \<open>The runtime around a handler\<close>

text \<open>
  What a handler does besides answering: calls of
  \<^verbatim>\<open>client.chat.completions.create\<close> with their argument, and lines written with
  \<^verbatim>\<open>console.error\<close> (the label and the values after it).
\<close>

datatype effect = Create jsval | ConsoleError string "jsval list"

text \<open>The response: the status code and the value given to \<^verbatim>\<open>res.json\<close>.\<close>

record response =
  statusCode :: nat
  json :: jsval

text \<open>
  A run of a handler ends with a response, or with a value thrown out of the handler
  (\<open>Inl\<close>): then no response is sent.
\<close>

record run =
  outcome :: "jsval + response"
  effects :: "effect list"

text \<open>
  The parts of the runtime the servers depend on and this repository does not define:
  the environment variables read at start-up, the constructor \<^verbatim>\<open>new OpenAI(options)\<close> of
  the client (\<open>Some e\<close>: it throws \<open>e\<close>, \<open>None\<close>: it returns the client),
  \<^verbatim>\<open>JSON.parse\<close> on a string (\<open>None\<close>: it throws), the client's
  \<^verbatim>\<open>chat.completions.create\<close> (\<open>Inr\<close>: the completion it resolves with, \<open>Inl\<close>: the
  value it rejects with) and the wording of the engine's error messages.
\<close>

record runtime =
  env_OPENAI_API_KEY :: "string option"
  env_TEXT_MODEL :: "string option"
  new_OpenAI :: "jsval \<Rightarrow> jsval option"
  json_parse :: "string \<Rightarrow> jsval option"
  create :: "jsval \<Rightarrow> jsval + jsval"
  fault_message :: "fault \<Rightarrow> string"

definition TypeError :: "runtime \<Rightarrow> fault \<Rightarrow> jsval" where
  "TypeError rt f = JObj [(''name'', JStr ''TypeError''), (''message'', JStr (fault_message rt f))]"

text \<open>
  \<^verbatim>\<open>JSON.parse(raw)\<close> converts its argument to a string first. \<open>None\<close>: it throws, a
  \<^verbatim>\<open>TypeError\<close> from the conversion or a \<^verbatim>\<open>SyntaxError\<close> from the parser; both
  handlers catch either without looking at it.
\<close>

definition JSON_parse :: "runtime \<Rightarrow> jsval \<Rightarrow> jsval option" where
  "JSON_parse rt raw = (case to_string raw of None \<Rightarrow> None | Some s \<Rightarrow> json_parse rt s)"

text \<open>\<^verbatim>\<open>res.json(v)\<close> answers with the default status 200, \<^verbatim>\<open>res.status(c).json(v)\<close> with \<open>c\<close>.\<close>

definition res_json :: "jsval \<Rightarrow> response" where
  "res_json v = \<lparr>statusCode = 200, json = v\<rparr>"

definition res_status_json :: "nat \<Rightarrow> jsval \<Rightarrow> response" where
  "res_status_json c v = \<lparr>statusCode = c, json = v\<rparr>"

section \<open>Configuration\<close>

text \<open>
  \<^verbatim>\<open>const TEXT_MODEL = process.env.TEXT_MODEL || "gpt-4o-mini"\<close> in \<^verbatim>\<open>server.mjs\<close>, with
  the default \<^verbatim>\<open>"gpt-4.1-mini"\<close> in \<^verbatim>\<open>server.js\<close>. An environment variable is a string
  or unset, and the empty string is falsy.
\<close>

definition TEXT_MODEL_mjs :: "runtime \<Rightarrow> string" where
  "TEXT_MODEL_mjs rt =
     (case env_TEXT_MODEL rt of
        None \<Rightarrow> ''gpt-4o-mini''
      | Some m \<Rightarrow> if m = [] then ''gpt-4o-mini'' else m)"

definition TEXT_MODEL_js :: "runtime \<Rightarrow> string" where
  "TEXT_MODEL_js rt =
     (case env_TEXT_MODEL rt of
        None \<Rightarrow> ''gpt-4.1-mini''
      | Some m \<Rightarrow> if m = [] then ''gpt-4.1-mini'' else m)"

section \<open>Start-up\<close>

text \<open>\<^verbatim>\<open>process.env.NAME\<close>: the string the variable is set to, \<^verbatim>\<open>undefined\<close> when it is unset.\<close>

definition env_value :: "string option \<Rightarrow> jsval" where
  "env_value v = (case v of None \<Rightarrow> JUndefined | Some s \<Rightarrow> JStr s)"

text \<open>
  What the module does when it is loaded, before any route exists, as far as it depends
  on the runtime: it warns on \<^verbatim>\<open>console.warn\<close> when \<^verbatim>\<open>OPENAI_API_KEY\<close> is falsy, and
  then constructs the client with \<^verbatim>\<open>new OpenAI({ apiKey: process.env.OPENAI_API_KEY })\<close>
  whether it has warned or not. The result is the lines warned and the value the
  constructor throws, if it does: nothing at the top level of the module catches it, so
  the statements after it, \<^verbatim>\<open>app.get\<close>, \<^verbatim>\<open>app.post\<close> and \<^verbatim>\<open>app.listen\<close>, are never
  reached. The two files differ in the second line of the warning.
\<close>

definition load_mjs :: "runtime \<Rightarrow> string list \<times> jsval option" where
  \<open>load_mjs rt =
     ((if \<not> truthy (env_value (env_OPENAI_API_KEY rt))
       then [''WARNING: OPENAI_API_KEY is not set. Start the server with:\<newline>'' @
             ''OPENAI_API_KEY="sk-..." npm start'']
       else []),
      new_OpenAI rt (JObj [(''apiKey'', env_value (env_OPENAI_API_KEY rt))]))\<close>

definition load_js :: "runtime \<Rightarrow> string list \<times> jsval option" where
  \<open>load_js rt =
     ((if \<not> truthy (env_value (env_OPENAI_API_KEY rt))
       then [''WARNING: OPENAI_API_KEY is not set. Start the server with:\<newline>'' @
             ''OPENAI_API_KEY="sk-..." node server.js'']
       else []),
      new_OpenAI rt (JObj [(''apiKey'', env_value (env_OPENAI_API_KEY rt))]))\<close>

section \<open>Health check\<close>

text \<open>
  \<^verbatim>\<open>app.get("/health", (req, res) => { res.json({ status: "ok" }); })\<close>, the same in
  both files. The callback reads nothing of its request.
\<close>

definition health :: "jsval \<Rightarrow> run" where
  "health req = \<lparr>outcome = Inr (res_json (JObj [(''status'', JStr ''ok'')])), effects = []\<rparr>"

text \<open>
  A request sent to the process. The route answers only if the module was loaded to its
  end; when the load threw, the process is not listening and the request gets no answer.
\<close>

datatype served = NotListening jsval | Answered run

definition GET_health_mjs :: "runtime \<Rightarrow> jsval \<Rightarrow> served" where
  "GET_health_mjs rt req =
     (case snd (load_mjs rt) of
        Some e \<Rightarrow> NotListening e
      | None \<Rightarrow> Answered (health req))"

definition GET_health_js :: "runtime \<Rightarrow> jsval \<Rightarrow> served" where
  "GET_health_js rt req =
     (case snd (load_js rt) of
        Some e \<Rightarrow> NotListening e
      | None \<Rightarrow> Answered (health req))"

section \<open>Prompts\<close>

text \<open>The system prompt of \<^verbatim>\<open>server.mjs\<close>.\<close>

definition systemPrompt_mjs :: string where
  \<open>systemPrompt_mjs = concat
    [''\<newline>'',
     ''You are an AI co-pilot for Stanford Health Care's Patient Access Center\<newline>'',
     ''serving the Redwood City and Newark locations.\<newline>'',
     ''\<newline>'',
     ''You support:\<newline>'',
     ''- Silvia (Sr. Manager, Patient Access & Provider Relations)\<newline>'',
     ''- Chona (Radiology Scheduling, complex radiology w/ pre-auth)\<newline>'',
     ''- Karen (Contact Center Management)\<newline>'',
     ''- Gayathri (LEAN & process improvement)\<newline>'',
     ''\<newline>'',
     ''Core call types:\<newline>'',
     ''- New Patient Scheduling (complex)\<newline>'',
     ''- Radiology w/ Pre-Auth (complex)\<newline>'',
     ''- Provider Referral Coordination (complex)\<newline>'',
     ''- Appointment Rescheduling (simple)\<newline>'',
     ''- Patient Demographics Update (simple)\<newline>'',
     ''\<newline>'',
     ''Use LEAN language (MUDA, value stream, 5 Whys, Kaizen) and focus on:\<newline>'',
     ''- Days to appointment\<newline>'',
     ''- Complex vs simple calls\<newline>'',
     ''- Provider satisfaction and referral completion\<newline>'',
     ''- Patient experience and "getting appointments"\<newline>'',
     ''\<newline>'',
     ''You are NOT allowed to give generic canned responses.\<newline>'',
     ''You must tailor your answer to the specific scenario, notes, and goal.\<newline>'',
     ''\<newline>'',
     ''You MUST respond as a single VALID JSON object, with this exact shape:\<newline>'',
     ''\<newline>'',
     ''{\<newline>'',
     ''  "summary": "One paragraph executive summary for Silvia in plain language.",\<newline>'',
     ''  "riskLevel": "low" | "medium" | "high",\<newline>'',
     ''  "recommendedDisposition": "What the agent should do next (route, schedule, escalate, close loop).",\<newline>'',
     ''  "schedulingPlan": "Step-by-step scheduling guidance for the specific scenario.",\<newline>'',
     ''  "scripts": {\<newline>'',
     ''    "opening": "Friendly, professional opening script.",\<newline>'',
     ''    "probingQuestions": [\<newline>'',
     ''      "Question 1",\<newline>'',
     ''      "Question 2",\<newline>'',
     ''      "Question 3"\<newline>'',
     ''    ],\<newline>'',
     ''    "expectationSetting": "Exact language to set expectations about next steps and timing.",\<newline>'',
     ''    "closing": "Strong closing that reassures patient and/or provider."\<newline>'',
     ''  },\<newline>'',
     ''  "leanInsights": {\<newline>'',
     ''    "mudaTypes": ["overprocessing", "waiting", "rework"],\<newline>'',
     ''    "rootCause": "Short explanation using 5 Whys logic.",\<newline>'',
     ''    "quickWins": [\<newline>'',
     ''      "Fast improvement idea 1",\<newline>'',
     ''      "Fast improvement idea 2"\<newline>'',
     ''    ],\<newline>'',
     ''    "longerTermFixes": [\<newline>'',
     ''      "Bigger structural fix 1",\<newline>'',
     ''      "Bigger structural fix 2"\<newline>'',
     ''    ]\<newline>'',
     ''  },\<newline>'',
     ''  "providerImpact": "How this scenario affects provider satisfaction & referral completion.",\<newline>'',
     ''  "metricsImpact": {\<newline>'',
     ''    "daysToAppointment": {\<newline>'',
     ''      "current": 4.1,\<newline>'',
     ''      "projected": 2.3\<newline>'',
     ''    },\<newline>'',
     ''    "fcrImpact": "Describe impact on First Call Resolution in words.",\<newline>'',
     ''    "hcahpsImpact": "Describe impact on 'getting appointments' in words."\<newline>'',
     ''  }\<newline>'',
     ''}\<newline>'']\<close>

text \<open>The system prompt of \<^verbatim>\<open>server.js\<close>.\<close>

definition systemPrompt_js :: string where
  \<open>systemPrompt_js = concat
    [''\<newline>'',
     ''You are an AI co-pilot for Stanford Health Care's Patient Access Center\<newline>'',
     ''serving the Redwood City and Newark locations.\<newline>'',
     ''\<newline>'',
     ''You support:\<newline>'',
     ''- Silvia (Sr. Manager, Patient Access & Provider Relations)\<newline>'',
     ''- Chona (Radiology Scheduling, complex radiology w/ pre-auth)\<newline>'',
     ''- Karen (Contact Center Management)\<newline>'',
     ''- Gayathri (LEAN & process improvement)\<newline>'',
     ''\<newline>'',
     ''Core call types:\<newline>'',
     ''- New Patient Scheduling (complex)\<newline>'',
     ''- Radiology w/ Pre-Auth (complex)\<newline>'',
     ''- Provider Referral Coordination (complex)\<newline>'',
     ''- Appointment Rescheduling (simple)\<newline>'',
     ''- Patient Demographics Update (simple)\<newline>'',
     ''\<newline>'',
     ''Use LEAN language (MUDA, value stream, 5 Whys, Kaizen) and focus on\<newline>'',
     ''days to appointment, complex vs simple calls, provider satisfaction,\<newline>'',
     ''and patient experience.\<newline>'',
     ''\<newline>'',
     ''You are NOT allowed to give generic canned responses.\<newline>'',
     ''You must tailor your answer to the specific scenario, notes, and goal.\<newline>'',
     ''\<newline>'',
     ''Always respond with VALID JSON ONLY, no extra commentary, matching exactly:\<newline>'',
     ''\<newline>'',
     ''{\<newline>'',
     ''  "summary": "One paragraph executive summary for Silvia in plain language.",\<newline>'',
     ''  "riskLevel": "low" | "medium" | "high",\<newline>'',
     ''  "recommendedDisposition": "What the agent should do next (route, schedule, escalate, close loop).",\<newline>'',
     ''  "schedulingPlan": "Step-by-step scheduling guidance for the specific scenario.",\<newline>'',
     ''  "scripts": {\<newline>'',
     ''    "opening": "Friendly, professional opening script.",\<newline>'',
     ''    "probingQuestions": [\<newline>'',
     ''      "Question 1",\<newline>'',
     ''      "Question 2",\<newline>'',
     ''      "Question 3"\<newline>'',
     ''    ],\<newline>'',
     ''    "expectationSetting": "Exact language to set expectations about next steps and timing.",\<newline>'',
     ''    "closing": "Strong closing that reassures patient and/or provider."\<newline>'',
     ''  },\<newline>'',
     ''  "leanInsights": {\<newline>'',
     ''    "mudaTypes": ["overprocessing", "waiting", "rework"],\<newline>'',
     ''    "rootCause": "Short explanation using 5 Whys logic.",\<newline>'',
     ''    "quickWins": [\<newline>'',
     ''      "Fast improvement idea 1",\<newline>'',
     ''      "Fast improvement idea 2"\<newline>'',
     ''    ],\<newline>'',
     ''    "longerTermFixes": [\<newline>'',
     ''      "Bigger structural fix 1",\<newline>'',
     ''      "Bigger structural fix 2"\<newline>'',
     ''    ]\<newline>'',
     ''  },\<newline>'',
     ''  "providerImpact": "How this scenario affects provider satisfaction & referral completion.",\<newline>'',
     ''  "metricsImpact": {\<newline>'',
     ''    "daysToAppointment": {\<newline>'',
     ''      "current": 4.1,\<newline>'',
     ''      "projected": 2.3\<newline>'',
     ''    },\<newline>'',
     ''    "fcrImpact": "Describe impact on First Call Resolution in words.",\<newline>'',
     ''    "hcahpsImpact": "Describe impact on 'getting appointments' in words."\<newline>'',
     ''  }\<newline>'',
     ''}\<newline>'']\<close>

text \<open>
  The user prompt, the same template in both files. Each substitution is converted to a
  string in turn; the first conversion that throws ends the composition with that
  \<^verbatim>\<open>TypeError\<close>.
\<close>

definition userPrompt :: "jsval \<Rightarrow> jsval \<Rightarrow> jsval \<Rightarrow> jsval \<Rightarrow> fault + string" where
  "userPrompt callType persona goal notes =
     (case to_string callType of
        None \<Rightarrow> Inl NotPrimitive
      | Some ct \<Rightarrow>
     (case to_string (or_else persona (JStr ''General Stanford Patient Access leader'')) of
        None \<Rightarrow> Inl NotPrimitive
      | Some pe \<Rightarrow>
     (case to_string
             (or_else goal (JStr ''Optimize access and experience while protecting resources.'')) of
        None \<Rightarrow> Inl NotPrimitive
      | Some go \<Rightarrow>
     (case to_string notes of
        None \<Rightarrow> Inl NotPrimitive
      | Some nt \<Rightarrow>
          Inr (''\<newline>CALL TYPE: '' @ ct @
               ''\<newline>PERSONA (primary audience for explanation): '' @ pe @
               ''\<newline>GOAL: '' @ go @
               ''\<newline>\<newline>CALL / SCENARIO NOTES:\<newline>'' @ nt @
               ''\<newline>\<newline>Return ONLY the JSON object, no backticks, no markdown, no extra text.\<newline>'' @
               ''If data is missing, make reasonable assumptions consistent with Stanford\<newline>'' @
               ''Patient Access operations and LEAN methodology.\<newline>'')))))"

section \<open>The analyze handler\<close>

text \<open>
  \<^verbatim>\<open>const { callType, persona, notes, goal } = req.body || {}\<close>: the value that is
  destructured is never \<^verbatim>\<open>undefined\<close> or \<^verbatim>\<open>null\<close>, so each field is read with
  \<open>property\<close>.
\<close>

definition body_field :: "string \<Rightarrow> jsval \<Rightarrow> jsval" where
  "body_field k body = property k (or_else body (JObj []))"

text \<open>The object given to \<^verbatim>\<open>client.chat.completions.create\<close>, the same literal in both files.\<close>

definition create_args :: "string \<Rightarrow> string \<Rightarrow> string \<Rightarrow> jsval" where
  "create_args model systemPrompt up =
     JObj [(''model'', JStr model),
           (''temperature'', JNum ''0.2''),
           (''response_format'', JObj [(''type'', JStr ''json_object'')]),
           (''messages'',
              JArr [JObj [(''role'', JStr ''system''), (''content'', JStr systemPrompt)],
                    JObj [(''role'', JStr ''user''), (''content'', JStr up)]])]"

text \<open>
  \<^verbatim>\<open>completion.choices?.[0]?.message?.content\<close>: only the first access is unguarded and
  throws on a completion that is \<^verbatim>\<open>undefined\<close> or \<^verbatim>\<open>null\<close>.
\<close>

definition first_content :: "jsval \<Rightarrow> fault + jsval" where
  "first_content completion =
     (case get_prop ''choices'' completion of
        Inl f \<Rightarrow> Inl f
      | Inr cs \<Rightarrow> Inr (opt_prop ''content'' (opt_prop ''message'' (opt_index0 cs))))"

subsection \<open>\<^verbatim>\<open>server.mjs\<close>\<close>

text \<open>
  The body of the outer \<^verbatim>\<open>try\<close>, for fields that passed the validation. \<open>Inl\<close> is a
  value thrown to the outer \<^verbatim>\<open>catch\<close>, \<open>Inr\<close> a response that was sent. A failed
  \<^verbatim>\<open>JSON.parse\<close> is caught inside: the raw text is logged and the answer is a 500 with a
  fixed message.
\<close>

definition try_mjs ::
  "runtime \<Rightarrow> jsval \<Rightarrow> jsval \<Rightarrow> jsval \<Rightarrow> jsval \<Rightarrow> (jsval + response) \<times> effect list" where
  "try_mjs rt callType persona notes goal =
     (case userPrompt callType persona goal notes of
        Inl f \<Rightarrow> (Inl (TypeError rt f), [])
      | Inr up \<Rightarrow>
          (let args = create_args (TEXT_MODEL_mjs rt) systemPrompt_mjs up in
           case create rt args of
             Inl error \<Rightarrow> (Inl error, [Create args])
           | Inr completion \<Rightarrow>
               (case first_content completion of
                  Inl f \<Rightarrow> (Inl (TypeError rt f), [Create args])
                | Inr content \<Rightarrow>
                    (let raw = or_else content (JStr ''{}'') in
                     case JSON_parse rt raw of
                       None \<Rightarrow>
                         (Inr (res_status_json 500
                                 (JObj [(''success'', JBool False),
                                        (''error'', JStr ''Model output was not valid JSON.'')])),
                          [Create args, ConsoleError ''JSON parse error, raw output:'' [raw]])
                     | Some parsed \<Rightarrow>
                         (Inr (res_json (JObj [(''success'', JBool True), (''analysis'', parsed)])),
                          [Create args])))))"

text \<open>
  The \<^verbatim>\<open>message\<close> of the outer \<^verbatim>\<open>catch\<close>:
  \<^verbatim>\<open>error?.response?.data?.error?.message || error?.error?.message || error.message || "Failed to generate analysis."\<close>.
  The third operand is evaluated only when the first two are falsy, and its access is
  not guarded.
\<close>

definition message_mjs :: "jsval \<Rightarrow> fault + jsval" where
  "message_mjs error =
     (let m1 = opt_prop ''message''
                 (opt_prop ''error'' (opt_prop ''data'' (opt_prop ''response'' error)))
      in if truthy m1 then Inr m1
         else
           (let m2 = opt_prop ''message'' (opt_prop ''error'' error)
            in if truthy m2 then Inr m2
               else
                 (case get_prop ''message'' error of
                    Inl f \<Rightarrow> Inl f
                  | Inr m3 \<Rightarrow> Inr (or_else m3 (JStr ''Failed to generate analysis.'')))))"

text \<open>\<^verbatim>\<open>const status = error?.status || error?.response?.status\<close>.\<close>

definition status_mjs :: "jsval \<Rightarrow> jsval" where
  "status_mjs error =
     or_else (opt_prop ''status'' error) (opt_prop ''status'' (opt_prop ''response'' error))"

text \<open>
  The outer \<^verbatim>\<open>catch\<close>. A value thrown here (\<open>Inl\<close>) leaves the handler: by the
  unguarded \<^verbatim>\<open>error.message\<close>, or by the template of the answer when the status or the
  message has no string conversion.
\<close>

definition catch_mjs :: "runtime \<Rightarrow> jsval \<Rightarrow> (jsval + response) \<times> effect list" where
  "catch_mjs rt error =
     (let status = status_mjs error in
      case message_mjs error of
        Inl f \<Rightarrow> (Inl (TypeError rt f), [ConsoleError ''OpenAI error (full):'' [error]])
      | Inr message \<Rightarrow>
          (let logs = [ConsoleError ''OpenAI error (full):'' [error],
                       ConsoleError ''OpenAI error status:'' [status],
                       ConsoleError ''OpenAI error message:'' [message]]
           in case to_string (or_else status (JStr ''unknown'')) of
                None \<Rightarrow> (Inl (TypeError rt NotPrimitive), logs)
              | Some st \<Rightarrow>
                  (case to_string message of
                     None \<Rightarrow> (Inl (TypeError rt NotPrimitive), logs)
                   | Some m \<Rightarrow>
                       (Inr (res_status_json 500
                               (JObj [(''success'', JBool False),
                                      (''error'', JStr (''OpenAI error ('' @ st @ ''): '' @ m))])),
                        logs))))"

definition analyze_mjs :: "runtime \<Rightarrow> jsval \<Rightarrow> run" where
  "analyze_mjs rt body =
     (let callType = body_field ''callType'' body;
          persona = body_field ''persona'' body;
          notes = body_field ''notes'' body;
          goal = body_field ''goal'' body
      in if \<not> truthy callType \<or> \<not> truthy notes then
           \<lparr>outcome = Inr (res_status_json 400
                              (JObj [(''success'', JBool False),
                                     (''error'', JStr ''callType and notes are required.'')])),
            effects = []\<rparr>
         else
           (case try_mjs rt callType persona notes goal of
              (Inr r, es) \<Rightarrow> \<lparr>outcome = Inr r, effects = es\<rparr>
            | (Inl error, es) \<Rightarrow>
                (case catch_mjs rt error of
                   (out, es') \<Rightarrow> \<lparr>outcome = out, effects = es @ es'\<rparr>)))"

subsection \<open>\<^verbatim>\<open>server.js\<close>\<close>

text \<open>
  The body of the \<^verbatim>\<open>try\<close> of \<^verbatim>\<open>server.js\<close>. A failed \<^verbatim>\<open>JSON.parse\<close> is caught
  inside here too, but the answer is then a success whose analysis is an object made on
  the spot, carrying the raw value.
\<close>

definition try_js ::
  "runtime \<Rightarrow> jsval \<Rightarrow> jsval \<Rightarrow> jsval \<Rightarrow> jsval \<Rightarrow> (jsval + response) \<times> effect list" where
  "try_js rt callType persona notes goal =
     (case userPrompt callType persona goal notes of
        Inl f \<Rightarrow> (Inl (TypeError rt f), [])
      | Inr up \<Rightarrow>
          (let args = create_args (TEXT_MODEL_js rt) systemPrompt_js up in
           case create rt args of
             Inl error \<Rightarrow> (Inl error, [Create args])
           | Inr completion \<Rightarrow>
               (case first_content completion of
                  Inl f \<Rightarrow> (Inl (TypeError rt f), [Create args])
                | Inr content \<Rightarrow>
                    (let raw = or_else content (JStr ''{}'') in
                     case JSON_parse rt raw of
                       None \<Rightarrow>
                         (Inr (res_json
                                 (JObj [(''success'', JBool True),
                                        (''analysis'',
                                           JObj [(''summary'',
                                                    JStr ''Model returned non-JSON output from OpenAI.''),
                                                 (''raw'', raw)])])),
                          [Create args,
                           ConsoleError ''Failed to parse JSON from OpenAI. Raw content:'' [raw]])
                     | Some parsed \<Rightarrow>
                         (Inr (res_json (JObj [(''success'', JBool True), (''analysis'', parsed)])),
                          [Create args])))))"

text \<open>
  The \<^verbatim>\<open>catch\<close> of \<^verbatim>\<open>server.js\<close>. The object it logs first reads \<^verbatim>\<open>error.message\<close>
  unguarded; past that the error is neither \<^verbatim>\<open>undefined\<close> nor \<^verbatim>\<open>null\<close>. The answer
  carries \<^verbatim>\<open>error.response?.data?.error?.message || error.message || "Failed to generate analysis."\<close>
  as it is, with no status in it.
\<close>

definition catch_js :: "runtime \<Rightarrow> jsval \<Rightarrow> (jsval + response) \<times> effect list" where
  "catch_js rt error =
     (case get_prop ''message'' error of
        Inl f \<Rightarrow> (Inl (TypeError rt f), [])
      | Inr msg \<Rightarrow>
          (let logged = JObj [(''message'', msg),
                              (''name'', property ''name'' error),
                              (''status'', property ''status'' error),
                              (''data'', opt_prop ''data'' (property ''response'' error))];
               m1 = opt_prop ''message''
                      (opt_prop ''error'' (opt_prop ''data'' (property ''response'' error)))
           in (Inr (res_status_json 500
                      (JObj [(''success'', JBool False),
                             (''error'',
                                or_else (or_else m1 msg) (JStr ''Failed to generate analysis.''))])),
               [ConsoleError ''OpenAI error:'' [logged]])))"

definition analyze_js :: "runtime \<Rightarrow> jsval \<Rightarrow> run" where
  "analyze_js rt body =
     (let callType = body_field ''callType'' body;
          persona = body_field ''persona'' body;
          notes = body_field ''notes'' body;
          goal = body_field ''goal'' body
      in if \<not> truthy callType \<or> \<not> truthy notes then
           \<lparr>outcome = Inr (res_status_json 400
                              (JObj [(''success'', JBool False),
                                     (''error'', JStr ''callType and notes are required.'')])),
            effects = []\<rparr>
         else
           (case try_js rt callType persona notes goal of
              (Inr r, es) \<Rightarrow> \<lparr>outcome = Inr r, effects = es\<rparr>
            | (Inl error, es) \<Rightarrow>
                (case catch_js rt error of
                   (out, es') \<Rightarrow> \<lparr>outcome = out, effects = es @ es'\<rparr>)))"

section \<open>Observations on a run\<close>

text \<open>The arguments of the calls of \<^verbatim>\<open>client.chat.completions.create\<close> in a run, in order.\<close>

fun calls :: "effect list \<Rightarrow> jsval list" where
  "calls [] = []"
| "calls (Create args # es) = args # calls es"
| "calls (ConsoleError label vs # es) = calls es"

text \<open>
  The requests the specification calls validated: \<^verbatim>\<open>callType\<close> and \<^verbatim>\<open>notes\<close> are
  strings and not empty, \<^verbatim>\<open>persona\<close> and \<^verbatim>\<open>goal\<close> are strings or absent
  (\<^verbatim>\<open>undefined\<close>, or \<^verbatim>\<open>null\<close> in the JSON of the body).
\<close>

fun is_string :: "jsval \<Rightarrow> bool" where
  "is_string (JStr s) = True"
| "is_string v = False"

fun optional_string :: "jsval \<Rightarrow> bool" where
  "optional_string JUndefined = True"
| "optional_string JNull = True"
| "optional_string (JStr s) = True"
| "optional_string v = False"

fun string_of :: "jsval \<Rightarrow> string" where
  "string_of (JStr s) = s"
| "string_of v = []"

definition validated :: "jsval \<Rightarrow> bool" where
  "validated body =
     (is_string (body_field ''callType'' body) \<and> truthy (body_field ''callType'' body) \<and>
      is_string (body_field ''notes'' body) \<and> truthy (body_field ''notes'' body) \<and>
      optional_string (body_field ''persona'' body) \<and>
      optional_string (body_field ''goal'' body))"

section \<open>Stubs for concrete runs\<close>

text \<open>
  A stand-in for \<^verbatim>\<open>JSON.parse\<close> on strings that knows two JSON texts and rejects every
  other string, \<^verbatim>\<open>not json\<close> among them.
\<close>

definition sample_json :: string where
  \<open>sample_json = ''{"summary":"x","riskLevel":"low"}''\<close>

definition stub_parse :: "string \<Rightarrow> jsval option" where
  "stub_parse s =
     (if s = ''{}'' then Some (JObj [])
      else if s = sample_json
      then Some (JObj [(''summary'', JStr ''x''), (''riskLevel'', JStr ''low'')])
      else None)"

text \<open>
  The constructor of the \<^verbatim>\<open>openai\<close> package, which the servers import: without a key,
  that is with \<^verbatim>\<open>apiKey\<close> undefined, it throws an \<^verbatim>\<open>OpenAIError\<close> instead of returning
  a client; with a key it returns one.
\<close>

definition missing_key_error :: jsval where
  "missing_key_error =
     JObj [(''name'', JStr ''OpenAIError''),
           (''message'', JStr ''The OPENAI_API_KEY environment variable is missing or empty'')]"

definition openai_constructor :: "jsval \<Rightarrow> jsval option" where
  "openai_constructor options =
     (if property ''apiKey'' options = JUndefined then Some missing_key_error else None)"

text \<open>
  A runtime with a key and no model set, whose client answers every call with the given
  result.
\<close>

definition stub_runtime :: "jsval + jsval \<Rightarrow> runtime" where
  "stub_runtime result =
     \<lparr>env_OPENAI_API_KEY = Some ''sk-test'',
      env_TEXT_MODEL = None,
      new_OpenAI = openai_constructor,
      json_parse = stub_parse,
      create = (\<lambda>args. result),
      fault_message = (\<lambda>f. ''Cannot convert or read value'')\<rparr>"

text \<open>A completion with one choice, whose message has the given content.\<close>

definition completion_of :: "jsval \<Rightarrow> jsval" where
  "completion_of content =
     JObj [(''choices'',
              JArr [JObj [(''message'',
                            JObj [(''role'', JStr ''assistant''), (''content'', content)])]])]"

text \<open>The same runtime started with \<^verbatim>\<open>OPENAI_API_KEY\<close> unset.\<close>

definition keyless_runtime :: runtime where
  "keyless_runtime =
     (stub_runtime (Inr (completion_of (JStr ''{}''))))\<lparr>env_OPENAI_API_KEY := None\<rparr>"

definition sample_body :: jsval where
  "sample_body =
     JObj [(''callType'', JStr ''Radiology w/ Pre-Auth''),
           (''notes'', JStr ''MRI referral is incomplete.'')]"

text \<open>The error of a rate-limited call: status 429, message \<^verbatim>\<open>rate limited\<close>.\<close>

definition rate_limited :: jsval where
  "rate_limited = JObj [(''status'', JNum ''429''), (''message'', JStr ''rate limited'')]"

section \<open>Auxiliary facts\<close>

lemma validatedD:
  assumes "validated body"
  obtains ct nt where "body_field ''callType'' body = JStr ct" "ct \<noteq> []"
    "body_field ''notes'' body = JStr nt" "nt \<noteq> []"
    "optional_string (body_field ''persona'' body)" "optional_string (body_field ''goal'' body)"
proof -
  from assms have c: "is_string (body_field ''callType'' body)"
      "truthy (body_field ''callType'' body)"
    and n: "is_string (body_field ''notes'' body)" "truthy (body_field ''notes'' body)"
    and o: "optional_string (body_field ''persona'' body)"
      "optional_string (body_field ''goal'' body)"
    by (simp_all add: validated_def)
  from c obtain ct where "body_field ''callType'' body = JStr ct" "ct \<noteq> []"
    by (cases "body_field ''callType'' body") auto
  moreover from n obtain nt where "body_field ''notes'' body = JStr nt" "nt \<noteq> []"
    by (cases "body_field ''notes'' body") auto
  ultimately show thesis using o that by blast
qed

lemma validated_truthy:
  "validated body \<Longrightarrow>
   truthy (body_field ''callType'' body) \<and> truthy (body_field ''notes'' body)"
  by (simp add: validated_def)

lemma to_string_optional:
  "optional_string v \<Longrightarrow>
   to_string (or_else v (JStr d)) = Some (if truthy v then string_of v else d)"
  by (cases v) (simp_all add: or_else_def)

text \<open>On string fields the composition of the user prompt never throws.\<close>

lemma userPrompt_strings:
  assumes "optional_string pe" "optional_string go"
  shows "userPrompt (JStr ct) pe go (JStr nt) =
    Inr (''\<newline>CALL TYPE: '' @ ct @
         ''\<newline>PERSONA (primary audience for explanation): '' @
         (if truthy pe then string_of pe else ''General Stanford Patient Access leader'') @
         ''\<newline>GOAL: '' @
         (if truthy go then string_of go
          else ''Optimize access and experience while protecting resources.'') @
         ''\<newline>\<newline>CALL / SCENARIO NOTES:\<newline>'' @ nt @
         ''\<newline>\<newline>Return ONLY the JSON object, no backticks, no markdown, no extra text.\<newline>'' @
         ''If data is missing, make reasonable assumptions consistent with Stanford\<newline>'' @
         ''Patient Access operations and LEAN methodology.\<newline>'')"
  unfolding userPrompt_def
  by (simp only: to_string.simps option.case to_string_optional [OF assms(1)]
        to_string_optional [OF assms(2)])

lemma validated_userPrompt:
  assumes "validated body"
  shows "\<exists>up. userPrompt (body_field ''callType'' body) (body_field ''persona'' body)
           (body_field ''goal'' body) (body_field ''notes'' body) = Inr up"
proof -
  from assms obtain ct nt where "body_field ''callType'' body = JStr ct"
    "body_field ''notes'' body = JStr nt"
    "optional_string (body_field ''persona'' body)" "optional_string (body_field ''goal'' body)"
    by (rule validatedD)
  then show ?thesis by (simp add: userPrompt_strings)
qed

lemma sublist_mid: "ys = ps @ xs @ ss \<Longrightarrow> sublist xs ys"
  by (auto simp: sublist_def)

subsection \<open>The calls of a run\<close>








subsection \<open>The stubs\<close>

lemma validated_sample_body: "validated sample_body"
  by (simp add: validated_def sample_body_def body_field_def or_else_def)

lemma sample_body_fields:
  "body_field ''callType'' sample_body = JStr ''Radiology w/ Pre-Auth''"
  "body_field ''notes'' sample_body = JStr ''MRI referral is incomplete.''"
  "body_field ''persona'' sample_body = JUndefined"
  "body_field ''goal'' sample_body = JUndefined"
  by (simp_all add: body_field_def sample_body_def or_else_def)

lemma stub_runtime_sel:
  "create (stub_runtime result) args = result"
  "json_parse (stub_runtime result) = stub_parse"
  "env_TEXT_MODEL (stub_runtime result) = None"
  by (simp_all add: stub_runtime_def)

lemma first_content_completion_of: "first_content (completion_of content) = Inr content"
  by (simp add: first_content_def completion_of_def get_prop_def opt_prop_def)

lemma sample_userPrompt:
  obtains up where
    "userPrompt (body_field ''callType'' sample_body) (body_field ''persona'' sample_body)
       (body_field ''goal'' sample_body) (body_field ''notes'' sample_body) = Inr up"
  using validated_userPrompt [OF validated_sample_body] by blast

lemma sample_truthy:
  "truthy (body_field ''callType'' sample_body)" "truthy (body_field ''notes'' sample_body)"
  using validated_truthy [OF validated_sample_body] by simp_all

section \<open>Validation\<close>

text \<open>
  Claim C2. A request whose body lacks a truthy \<^verbatim>\<open>callType\<close> or a truthy \<^verbatim>\<open>notes\<close> is
  answered, by either file, with status 400 and the body
  \<^verbatim>\<open>{ success: false, error: "callType and notes are required." }\<close>, and the run has no
  effect at all: no call of the client and no log line.
\<close>

theorem missing_field_rejected:
  assumes "\<not> truthy (body_field ''callType'' body) \<or> \<not> truthy (body_field ''notes'' body)"
  shows "analyze_mjs rt body =
           \<lparr>outcome = Inr \<lparr>statusCode = 400,
                            json = JObj [(''success'', JBool False),
                                         (''error'', JStr ''callType and notes are required.'')]\<rparr>,
            effects = []\<rparr>
       \<and> analyze_js rt body =
           \<lparr>outcome = Inr \<lparr>statusCode = 400,
                            json = JObj [(''success'', JBool False),
                                         (''error'', JStr ''callType and notes are required.'')]\<rparr>,
            effects = []\<rparr>"
  using assms by (auto simp: analyze_mjs_def analyze_js_def res_status_json_def Let_def)

theorem missing_field_rejected_witness:
  "\<not> truthy (body_field ''notes'' (JObj [(''callType'', JStr ''Radiology w/ Pre-Auth'')]))
   \<and> analyze_mjs (stub_runtime (Inr (completion_of (JStr ''{}''))))
        (JObj [(''callType'', JStr ''Radiology w/ Pre-Auth'')]) =
       \<lparr>outcome = Inr \<lparr>statusCode = 400,
                        json = JObj [(''success'', JBool False),
                                     (''error'', JStr ''callType and notes are required.'')]\<rparr>,
        effects = []\<rparr>
   \<and> analyze_js (stub_runtime (Inr (completion_of (JStr ''{}''))))
        (JObj [(''callType'', JStr ''Radiology w/ Pre-Auth'')]) =
       \<lparr>outcome = Inr \<lparr>statusCode = 400,
                        json = JObj [(''success'', JBool False),
                                     (''error'', JStr ''callType and notes are required.'')]\<rparr>,
        effects = []\<rparr>"
proof -
  have n: "\<not> truthy (body_field ''notes'' (JObj [(''callType'', JStr ''Radiology w/ Pre-Auth'')]))"
    by (simp add: body_field_def or_else_def)
  then have "\<not> truthy (body_field ''callType'' (JObj [(''callType'', JStr ''Radiology w/ Pre-Auth'')]))
      \<or> \<not> truthy (body_field ''notes'' (JObj [(''callType'', JStr ''Radiology w/ Pre-Auth'')]))"
    by (rule disjI2)
  from missing_field_rejected [OF this] n show ?thesis by blast
qed

text \<open>
  Claim C9. A body that is absent altogether, \<^verbatim>\<open>undefined\<close> or \<^verbatim>\<open>null\<close>, is replaced by
  the empty object before it is destructured: the run is the one of the empty object,
  the 400 of the validation, and nothing is thrown.
\<close>

theorem absent_body_rejected:
  "analyze_mjs rt JUndefined =
     \<lparr>outcome = Inr \<lparr>statusCode = 400,
                      json = JObj [(''success'', JBool False),
                                   (''error'', JStr ''callType and notes are required.'')]\<rparr>,
      effects = []\<rparr>
   \<and> analyze_mjs rt JNull = analyze_mjs rt JUndefined
   \<and> analyze_mjs rt (JObj []) = analyze_mjs rt JUndefined
   \<and> analyze_js rt JUndefined = analyze_mjs rt JUndefined
   \<and> analyze_js rt JNull = analyze_mjs rt JUndefined
   \<and> analyze_js rt (JObj []) = analyze_mjs rt JUndefined"
  by (simp add: analyze_mjs_def analyze_js_def body_field_def or_else_def res_status_json_def)

theorem absent_body_rejected_witness:
  "analyze_mjs (stub_runtime (Inl rate_limited)) JNull =
     \<lparr>outcome = Inr \<lparr>statusCode = 400,
                      json = JObj [(''success'', JBool False),
                                   (''error'', JStr ''callType and notes are required.'')]\<rparr>,
      effects = []\<rparr>
   \<and> analyze_js (stub_runtime (Inl rate_limited)) JUndefined =
     \<lparr>outcome = Inr \<lparr>statusCode = 400,
                      json = JObj [(''success'', JBool False),
                                   (''error'', JStr ''callType and notes are required.'')]\<rparr>,
      effects = []\<rparr>"
  using absent_body_rejected [of "stub_runtime (Inl rate_limited)"] by simp

section \<open>Health check\<close>

text \<open>
  Once the module has been loaded to its end, \<^verbatim>\<open>GET /health\<close> is answered with status
  200 and the body \<^verbatim>\<open>{ "status": "ok" }\<close>, whatever the request is and whatever the
  client and the parser do.
\<close>

lemma health_after_load:
  assumes "new_OpenAI rt (JObj [(''apiKey'', env_value (env_OPENAI_API_KEY rt))]) = None"
  shows "GET_health_mjs rt req =
           Answered \<lparr>outcome = Inr \<lparr>statusCode = 200, json = JObj [(''status'', JStr ''ok'')]\<rparr>,
                     effects = []\<rparr>
       \<and> GET_health_js rt req =
           Answered \<lparr>outcome = Inr \<lparr>statusCode = 200, json = JObj [(''status'', JStr ''ok'')]\<rparr>,
                     effects = []\<rparr>"
  using assms
  by (simp add: GET_health_mjs_def GET_health_js_def load_mjs_def load_js_def health_def
        res_json_def)

text \<open>
  Claim C7 says that \<^verbatim>\<open>GET /health\<close> is answered with status 200 and
  \<^verbatim>\<open>{ "status": "ok" }\<close> also when the API key is unset. The servers do not do that:
  started without \<^verbatim>\<open>OPENAI_API_KEY\<close>, each of them warns and then constructs the client
  all the same, the constructor throws for want of a key, the load of the module ends
  there, and a request to \<^verbatim>\<open>/health\<close> finds no process listening.
\<close>

theorem health_not_served_without_key:
  "env_OPENAI_API_KEY keyless_runtime = None
   \<and> length (fst (load_mjs keyless_runtime)) = 1
   \<and> length (fst (load_js keyless_runtime)) = 1
   \<and> snd (load_mjs keyless_runtime) = Some missing_key_error
   \<and> snd (load_js keyless_runtime) = Some missing_key_error
   \<and> GET_health_mjs keyless_runtime JUndefined = NotListening missing_key_error
   \<and> GET_health_js keyless_runtime JUndefined = NotListening missing_key_error"
  by (simp add: GET_health_mjs_def GET_health_js_def load_mjs_def load_js_def
        keyless_runtime_def stub_runtime_def openai_constructor_def env_value_def)

section \<open>Prompt composition\<close>



section \<open>The call of the client\<close>





section \<open>The answer of the client\<close>

text \<open>
  Claim C1. When the call resolves and the content of the first choice is present but
  \<^verbatim>\<open>JSON.parse\<close> rejects it, each file follows its own policy on every such request and
  nothing is thrown out of the handler. \<^verbatim>\<open>server.mjs\<close> logs the content and answers
  with status 500, \<^verbatim>\<open>success: false\<close> and the fixed message
  \<^verbatim>\<open>Model output was not valid JSON.\<close>, with nothing of the content in the answer.
  \<^verbatim>\<open>server.js\<close> logs the content and answers with status 200, \<^verbatim>\<open>success: true\<close> and
  an analysis made of a fixed summary and of the content itself under \<^verbatim>\<open>raw\<close>.
\<close>

theorem parse_failure_degrades:
  assumes "truthy (body_field ''callType'' body)" and "truthy (body_field ''notes'' body)"
    and "userPrompt (body_field ''callType'' body) (body_field ''persona'' body)
           (body_field ''goal'' body) (body_field ''notes'' body) = Inr up"
    and "create rt (create_args (TEXT_MODEL_mjs rt) systemPrompt_mjs up) = Inr completion"
    and "create rt (create_args (TEXT_MODEL_js rt) systemPrompt_js up) = Inr completion"
    and "first_content completion = Inr content" and "truthy content"
    and "JSON_parse rt content = None"
  shows "analyze_mjs rt body =
           \<lparr>outcome = Inr \<lparr>statusCode = 500,
                            json = JObj [(''success'', JBool False),
                                         (''error'', JStr ''Model output was not valid JSON.'')]\<rparr>,
            effects = [Create (create_args (TEXT_MODEL_mjs rt) systemPrompt_mjs up),
                       ConsoleError ''JSON parse error, raw output:'' [content]]\<rparr>
       \<and> analyze_js rt body =
           \<lparr>outcome = Inr \<lparr>statusCode = 200,
                            json = JObj [(''success'', JBool True),
                                         (''analysis'',
                                            JObj [(''summary'',
                                                     JStr ''Model returned non-JSON output from OpenAI.''),
                                                  (''raw'', content)])]\<rparr>,
            effects = [Create (create_args (TEXT_MODEL_js rt) systemPrompt_js up),
                       ConsoleError ''Failed to parse JSON from OpenAI. Raw content:'' [content]]\<rparr>"
proof -
  from assms(7) have raw: "or_else content (JStr ''{}'') = content"
    by (simp add: or_else_def)
  show ?thesis
    using assms(1-6,8)
    by (simp add: analyze_mjs_def analyze_js_def try_mjs_def try_js_def raw
          res_status_json_def res_json_def)
qed

theorem parse_failure_degrades_witness:
  "JSON_parse (stub_runtime (Inr (completion_of (JStr ''not json'')))) (JStr ''not json'') = None
   \<and> outcome (analyze_mjs (stub_runtime (Inr (completion_of (JStr ''not json'')))) sample_body) =
       Inr \<lparr>statusCode = 500,
            json = JObj [(''success'', JBool False),
                         (''error'', JStr ''Model output was not valid JSON.'')]\<rparr>
   \<and> outcome (analyze_js (stub_runtime (Inr (completion_of (JStr ''not json'')))) sample_body) =
       Inr \<lparr>statusCode = 200,
            json = JObj [(''success'', JBool True),
                         (''analysis'',
                            JObj [(''summary'', JStr ''Model returned non-JSON output from OpenAI.''),
                                  (''raw'', JStr ''not json'')])]\<rparr>"
proof -
  let ?rt = "stub_runtime (Inr (completion_of (JStr ''not json'')))"
  obtain up where up: "userPrompt (body_field ''callType'' sample_body)
      (body_field ''persona'' sample_body) (body_field ''goal'' sample_body)
      (body_field ''notes'' sample_body) = Inr up"
    by (rule sample_userPrompt)
  have c: "create ?rt args = Inr (completion_of (JStr ''not json''))" for args
    by (simp add: stub_runtime_sel)
  have t: "truthy (JStr ''not json'')" by simp
  have p: "JSON_parse ?rt (JStr ''not json'') = None"
    by (simp add: JSON_parse_def stub_runtime_sel stub_parse_def sample_json_def)
  from parse_failure_degrades [OF sample_truthy up c c first_content_completion_of t p] p
  show ?thesis by simp
qed

text \<open>
  Claim C6. When the call resolves with a completion that has no content in its first
  choice (no \<^verbatim>\<open>choices\<close>, no first choice, no \<^verbatim>\<open>message\<close>, or a content that is
  missing or empty), the text handed to \<^verbatim>\<open>JSON.parse\<close> is \<^verbatim>\<open>{}\<close>. As
  \<^verbatim>\<open>JSON.parse("{}")\<close> is the empty object, both files answer with status 200 and
  \<^verbatim>\<open>{ success: true, analysis: {} }\<close>, and log nothing.
\<close>

theorem absent_content_is_empty_object:
  assumes "truthy (body_field ''callType'' body)" and "truthy (body_field ''notes'' body)"
    and "userPrompt (body_field ''callType'' body) (body_field ''persona'' body)
           (body_field ''goal'' body) (body_field ''notes'' body) = Inr up"
    and "create rt (create_args (TEXT_MODEL_mjs rt) systemPrompt_mjs up) = Inr completion"
    and "create rt (create_args (TEXT_MODEL_js rt) systemPrompt_js up) = Inr completion"
    and "first_content completion = Inr content" and "\<not> truthy content"
    and "json_parse rt ''{}'' = Some (JObj [])"
  shows "analyze_mjs rt body =
           \<lparr>outcome = Inr \<lparr>statusCode = 200,
                            json = JObj [(''success'', JBool True), (''analysis'', JObj [])]\<rparr>,
            effects = [Create (create_args (TEXT_MODEL_mjs rt) systemPrompt_mjs up)]\<rparr>
       \<and> analyze_js rt body =
           \<lparr>outcome = Inr \<lparr>statusCode = 200,
                            json = JObj [(''success'', JBool True), (''analysis'', JObj [])]\<rparr>,
            effects = [Create (create_args (TEXT_MODEL_js rt) systemPrompt_js up)]\<rparr>"
proof -
  from assms(7) have raw: "or_else content (JStr ''{}'') = JStr ''{}''"
    by (simp add: or_else_def)
  from assms(8) have p: "JSON_parse rt (JStr ''{}'') = Some (JObj [])"
    by (simp add: JSON_parse_def)
  show ?thesis
    using assms(1-6)
    by (simp add: analyze_mjs_def analyze_js_def try_mjs_def try_js_def raw p res_json_def)
qed

theorem absent_content_is_empty_object_witness:
  "first_content (JObj []) = Inr JUndefined
   \<and> first_content (JObj [(''choices'', JArr [])]) = Inr JUndefined
   \<and> first_content (completion_of (JStr [])) = Inr (JStr [])
   \<and> outcome (analyze_mjs (stub_runtime (Inr (JObj []))) sample_body) =
       Inr \<lparr>statusCode = 200,
            json = JObj [(''success'', JBool True), (''analysis'', JObj [])]\<rparr>
   \<and> outcome (analyze_js (stub_runtime (Inr (JObj [(''choices'', JArr [])]))) sample_body) =
       Inr \<lparr>statusCode = 200,
            json = JObj [(''success'', JBool True), (''analysis'', JObj [])]\<rparr>
   \<and> outcome (analyze_mjs (stub_runtime (Inr (completion_of (JStr [])))) sample_body) =
       Inr \<lparr>statusCode = 200,
            json = JObj [(''success'', JBool True), (''analysis'', JObj [])]\<rparr>"
proof -
  obtain up where up: "userPrompt (body_field ''callType'' sample_body)
      (body_field ''persona'' sample_body) (body_field ''goal'' sample_body)
      (body_field ''notes'' sample_body) = Inr up"
    by (rule sample_userPrompt)
  have c: "create (stub_runtime (Inr v)) args = Inr v" for v args
    by (simp add: stub_runtime_sel)
  have p: "json_parse (stub_runtime r) ''{}'' = Some (JObj [])" for r
    by (simp add: stub_runtime_sel stub_parse_def)
  have f1: "first_content (JObj []) = Inr JUndefined"
    by (simp add: first_content_def get_prop_def opt_prop_def)
  have f2: "first_content (JObj [(''choices'', JArr [])]) = Inr JUndefined"
    by (simp add: first_content_def get_prop_def opt_prop_def)
  have f3: "first_content (completion_of (JStr [])) = Inr (JStr [])"
    by (rule first_content_completion_of)
  have n: "\<not> truthy JUndefined" "\<not> truthy (JStr [])" by simp_all
  from absent_content_is_empty_object [OF sample_truthy up c c f1 n(1) p]
    absent_content_is_empty_object [OF sample_truthy up c c f2 n(1) p]
    absent_content_is_empty_object [OF sample_truthy up c c f3 n(2) p]
    f1 f2 f3
  show ?thesis by simp
qed

text \<open>
  Claim C10. The two files answer alike, with the same status and the same body, on a
  request that fails the validation, and on a request whose call resolves, for both, with
  a completion whose content (or \<^verbatim>\<open>{}\<close> in its place) \<^verbatim>\<open>JSON.parse\<close> accepts. So any
  difference between their answers lies on the other paths: a rejected parse, or a value
  thrown inside the \<^verbatim>\<open>try\<close>.
\<close>

theorem variants_agree:
  assumes "\<not> truthy (body_field ''callType'' body) \<or> \<not> truthy (body_field ''notes'' body) \<or>
     (\<exists>up completion content parsed.
        userPrompt (body_field ''callType'' body) (body_field ''persona'' body)
          (body_field ''goal'' body) (body_field ''notes'' body) = Inr up \<and>
        create rt (create_args (TEXT_MODEL_mjs rt) systemPrompt_mjs up) = Inr completion \<and>
        create rt (create_args (TEXT_MODEL_js rt) systemPrompt_js up) = Inr completion \<and>
        first_content completion = Inr content \<and>
        JSON_parse rt (or_else content (JStr ''{}'')) = Some parsed)"
  shows "\<exists>r. outcome (analyze_mjs rt body) = Inr r \<and> outcome (analyze_js rt body) = Inr r"
proof (cases "\<not> truthy (body_field ''callType'' body) \<or> \<not> truthy (body_field ''notes'' body)")
  case True
  then show ?thesis by (auto simp: analyze_mjs_def analyze_js_def)
next
  case False
  with assms obtain up completion content parsed where
    "userPrompt (body_field ''callType'' body) (body_field ''persona'' body)
          (body_field ''goal'' body) (body_field ''notes'' body) = Inr up"
    "create rt (create_args (TEXT_MODEL_mjs rt) systemPrompt_mjs up) = Inr completion"
    "create rt (create_args (TEXT_MODEL_js rt) systemPrompt_js up) = Inr completion"
    "first_content completion = Inr content"
    "JSON_parse rt (or_else content (JStr ''{}'')) = Some parsed"
    by blast
  with False show ?thesis
    by (simp add: analyze_mjs_def analyze_js_def try_mjs_def try_js_def)
qed

theorem variants_agree_witness:
  "outcome (analyze_mjs (stub_runtime (Inl rate_limited)) (JObj [(''notes'', JStr ''call back'')])) =
   outcome (analyze_js (stub_runtime (Inl rate_limited)) (JObj [(''notes'', JStr ''call back'')]))
   \<and> outcome (analyze_mjs (stub_runtime (Inr (completion_of (JStr sample_json)))) sample_body) =
     outcome (analyze_js (stub_runtime (Inr (completion_of (JStr sample_json)))) sample_body)
   \<and> outcome (analyze_js (stub_runtime (Inr (completion_of (JStr sample_json)))) sample_body) =
       Inr \<lparr>statusCode = 200,
            json = JObj [(''success'', JBool True),
                         (''analysis'',
                            JObj [(''summary'', JStr ''x''), (''riskLevel'', JStr ''low'')])]\<rparr>"
proof -
  let ?rt = "stub_runtime (Inr (completion_of (JStr sample_json)))"
  have "\<not> truthy (body_field ''callType'' (JObj [(''notes'', JStr ''call back'')]))"
    by (simp add: body_field_def or_else_def)
  then have 1: "outcome (analyze_mjs (stub_runtime (Inl rate_limited))
                  (JObj [(''notes'', JStr ''call back'')])) =
      outcome (analyze_js (stub_runtime (Inl rate_limited)) (JObj [(''notes'', JStr ''call back'')]))"
    using variants_agree [of "JObj [(''notes'', JStr ''call back'')]"
        "stub_runtime (Inl rate_limited)"]
    by auto
  obtain up where up: "userPrompt (body_field ''callType'' sample_body)
      (body_field ''persona'' sample_body) (body_field ''goal'' sample_body)
      (body_field ''notes'' sample_body) = Inr up"
    by (rule sample_userPrompt)
  have c: "create ?rt args = Inr (completion_of (JStr sample_json))" for args
    by (simp add: stub_runtime_sel)
  have p: "JSON_parse ?rt (or_else (JStr sample_json) (JStr ''{}'')) =
      Some (JObj [(''summary'', JStr ''x''), (''riskLevel'', JStr ''low'')])"
    by (simp add: JSON_parse_def or_else_def stub_runtime_sel stub_parse_def sample_json_def)
  have "\<exists>up completion content parsed.
        userPrompt (body_field ''callType'' sample_body) (body_field ''persona'' sample_body)
          (body_field ''goal'' sample_body) (body_field ''notes'' sample_body) = Inr up \<and>
        create ?rt (create_args (TEXT_MODEL_mjs ?rt) systemPrompt_mjs up) = Inr completion \<and>
        create ?rt (create_args (TEXT_MODEL_js ?rt) systemPrompt_js up) = Inr completion \<and>
        first_content completion = Inr content \<and>
        JSON_parse ?rt (or_else content (JStr ''{}'')) = Some parsed"
    using up c first_content_completion_of p by blast
  then have 2: "outcome (analyze_mjs ?rt sample_body) = outcome (analyze_js ?rt sample_body)"
    using variants_agree [of sample_body ?rt] by auto
  have 3: "outcome (analyze_js ?rt sample_body) =
       Inr \<lparr>statusCode = 200,
            json = JObj [(''success'', JBool True),
                         (''analysis'',
                            JObj [(''summary'', JStr ''x''), (''riskLevel'', JStr ''low'')])]\<rparr>"
    using up sample_truthy p
    by (simp add: analyze_js_def try_js_def c first_content_completion_of res_json_def)
  from 1 2 3 show ?thesis by (intro conjI)
qed

section \<open>A failed call\<close>

text \<open>
  Claim C3, as amended. Let the call reject with a value other than \<^verbatim>\<open>undefined\<close> and
  \<^verbatim>\<open>null\<close>. \<^verbatim>\<open>server.js\<close> then always answers with status 500, \<^verbatim>\<open>success: false\<close>
  and, as \<^verbatim>\<open>error\<close>, the message alone: the first truthy one of
  \<^verbatim>\<open>error.response.data.error.message\<close>, \<^verbatim>\<open>error.message\<close> and the literal
  \<^verbatim>\<open>Failed to generate analysis.\<close>; no status is put into it. \<^verbatim>\<open>server.mjs\<close> chooses
  as message the first truthy one of \<^verbatim>\<open>error.response.data.error.message\<close>,
  \<^verbatim>\<open>error.error.message\<close>, \<^verbatim>\<open>error.message\<close> and the same literal, and as status
  \<^verbatim>\<open>error.status\<close>, else \<^verbatim>\<open>error.response.status\<close>, else the word \<^verbatim>\<open>unknown\<close>;
  whenever that status and that message have a string conversion, it answers with
  status 500, \<^verbatim>\<open>success: false\<close> and the \<^verbatim>\<open>error\<close>
  \<^verbatim>\<open>OpenAI error (<status>): <message>\<close>, which contains the message.
\<close>

theorem upstream_failure_reported:
  assumes "truthy (body_field ''callType'' body)" and "truthy (body_field ''notes'' body)"
    and "userPrompt (body_field ''callType'' body) (body_field ''persona'' body)
           (body_field ''goal'' body) (body_field ''notes'' body) = Inr up"
    and "create rt (create_args (TEXT_MODEL_mjs rt) systemPrompt_mjs up) = Inl error"
    and "create rt (create_args (TEXT_MODEL_js rt) systemPrompt_js up) = Inl error"
    and "\<not> nullish error"
  shows "outcome (analyze_js rt body) =
           Inr \<lparr>statusCode = 500,
                json = JObj [(''success'', JBool False),
                             (''error'',
                                if truthy (opt_prop ''message''
                                             (opt_prop ''error''
                                                (opt_prop ''data'' (property ''response'' error))))
                                then opt_prop ''message''
                                       (opt_prop ''error''
                                          (opt_prop ''data'' (property ''response'' error)))
                                else if truthy (property ''message'' error)
                                then property ''message'' error
                                else JStr ''Failed to generate analysis.'')]\<rparr>
       \<and> status_mjs error =
           (if truthy (property ''status'' error) then property ''status'' error
            else opt_prop ''status'' (property ''response'' error))
       \<and> (\<exists>message.
             message_mjs error = Inr message
           \<and> message =
               (if truthy (opt_prop ''message''
                             (opt_prop ''error'' (opt_prop ''data'' (property ''response'' error))))
                then opt_prop ''message''
                       (opt_prop ''error'' (opt_prop ''data'' (property ''response'' error)))
                else if truthy (opt_prop ''message'' (property ''error'' error))
                then opt_prop ''message'' (property ''error'' error)
                else if truthy (property ''message'' error) then property ''message'' error
                else JStr ''Failed to generate analysis.'')
           \<and> (\<forall>st m.
                 to_string (or_else (status_mjs error) (JStr ''unknown'')) = Some st \<and>
                 to_string message = Some m \<longrightarrow>
                 outcome (analyze_mjs rt body) =
                   Inr \<lparr>statusCode = 500,
                        json = JObj [(''success'', JBool False),
                                     (''error'', JStr (''OpenAI error ('' @ st @ ''): '' @ m))]\<rparr>
                 \<and> sublist m (''OpenAI error ('' @ st @ ''): '' @ m)))"
proof -
  have o: "opt_prop k error = property k error" for k
    using assms(6) by (simp add: opt_prop_def)
  have 1: "outcome (analyze_js rt body) =
           Inr \<lparr>statusCode = 500,
                json = JObj [(''success'', JBool False),
                             (''error'',
                                if truthy (opt_prop ''message''
                                             (opt_prop ''error''
                                                (opt_prop ''data'' (property ''response'' error))))
                                then opt_prop ''message''
                                       (opt_prop ''error''
                                          (opt_prop ''data'' (property ''response'' error)))
                                else if truthy (property ''message'' error)
                                then property ''message'' error
                                else JStr ''Failed to generate analysis.'')]\<rparr>"
    using assms(1-3,5,6)
    by (simp add: analyze_js_def try_js_def catch_js_def get_prop_def or_else_def
          res_status_json_def Let_def)
  have 2: "status_mjs error =
           (if truthy (property ''status'' error) then property ''status'' error
            else opt_prop ''status'' (property ''response'' error))"
    by (simp add: status_mjs_def or_else_def o)
  define message where "message =
     (if truthy (opt_prop ''message''
                   (opt_prop ''error'' (opt_prop ''data'' (property ''response'' error))))
      then opt_prop ''message''
             (opt_prop ''error'' (opt_prop ''data'' (property ''response'' error)))
      else if truthy (opt_prop ''message'' (property ''error'' error))
      then opt_prop ''message'' (property ''error'' error)
      else if truthy (property ''message'' error) then property ''message'' error
      else JStr ''Failed to generate analysis.'')"
  have 3: "message_mjs error = Inr message"
    using assms(6)
    by (simp add: message_mjs_def message_def get_prop_def or_else_def Let_def o)
  have 4: "outcome (analyze_mjs rt body) =
             Inr \<lparr>statusCode = 500,
                  json = JObj [(''success'', JBool False),
                               (''error'', JStr (''OpenAI error ('' @ st @ ''): '' @ m))]\<rparr>
           \<and> sublist m (''OpenAI error ('' @ st @ ''): '' @ m)"
    if st: "to_string (or_else (status_mjs error) (JStr ''unknown'')) = Some st"
      and m: "to_string message = Some m" for st m
  proof
    have c: "catch_mjs rt error =
      (Inr \<lparr>statusCode = 500,
            json = JObj [(''success'', JBool False),
                         (''error'', JStr (''OpenAI error ('' @ st @ ''): '' @ m))]\<rparr>,
       [ConsoleError ''OpenAI error (full):'' [error],
        ConsoleError ''OpenAI error status:'' [status_mjs error],
        ConsoleError ''OpenAI error message:'' [message]])"
      using st m 3 by (simp add: catch_mjs_def res_status_json_def)
    show "outcome (analyze_mjs rt body) =
             Inr \<lparr>statusCode = 500,
                  json = JObj [(''success'', JBool False),
                               (''error'', JStr (''OpenAI error ('' @ st @ ''): '' @ m))]\<rparr>"
      using assms(1-4) by (simp add: analyze_mjs_def try_mjs_def c)
    show "sublist m (''OpenAI error ('' @ st @ ''): '' @ m)"
      by (rule sublist_mid [where ps = "''OpenAI error ('' @ st @ ''): ''" and ss = "[]"]) simp
  qed
  from 3 4 have "\<exists>message.
             message_mjs error = Inr message
           \<and> message =
               (if truthy (opt_prop ''message''
                             (opt_prop ''error'' (opt_prop ''data'' (property ''response'' error))))
                then opt_prop ''message''
                       (opt_prop ''error'' (opt_prop ''data'' (property ''response'' error)))
                else if truthy (opt_prop ''message'' (property ''error'' error))
                then opt_prop ''message'' (property ''error'' error)
                else if truthy (property ''message'' error) then property ''message'' error
                else JStr ''Failed to generate analysis.'')
           \<and> (\<forall>st m.
                 to_string (or_else (status_mjs error) (JStr ''unknown'')) = Some st \<and>
                 to_string message = Some m \<longrightarrow>
                 outcome (analyze_mjs rt body) =
                   Inr \<lparr>statusCode = 500,
                        json = JObj [(''success'', JBool False),
                                     (''error'', JStr (''OpenAI error ('' @ st @ ''): '' @ m))]\<rparr>
                 \<and> sublist m (''OpenAI error ('' @ st @ ''): '' @ m))"
    unfolding message_def [symmetric] by blast
  with 1 2 show ?thesis by (intro conjI)
qed

theorem upstream_failure_reported_witness:
  "\<not> nullish rate_limited
   \<and> to_string (or_else (status_mjs rate_limited) (JStr ''unknown'')) = Some ''429''
   \<and> message_mjs rate_limited = Inr (JStr ''rate limited'')
   \<and> outcome (analyze_mjs (stub_runtime (Inl rate_limited)) sample_body) =
       Inr \<lparr>statusCode = 500,
            json = JObj [(''success'', JBool False),
                         (''error'', JStr ''OpenAI error (429): rate limited'')]\<rparr>
   \<and> outcome (analyze_js (stub_runtime (Inl rate_limited)) sample_body) =
       Inr \<lparr>statusCode = 500,
            json = JObj [(''success'', JBool False), (''error'', JStr ''rate limited'')]\<rparr>
   \<and> sublist ''rate limited'' ''OpenAI error (429): rate limited''"
proof -
  let ?rt = "stub_runtime (Inl rate_limited)"
  obtain up where up: "userPrompt (body_field ''callType'' sample_body)
      (body_field ''persona'' sample_body) (body_field ''goal'' sample_body)
      (body_field ''notes'' sample_body) = Inr up"
    by (rule sample_userPrompt)
  have n: "\<not> nullish rate_limited" by (simp add: rate_limited_def)
  have s: "to_string (or_else (status_mjs rate_limited) (JStr ''unknown'')) = Some ''429''"
    by (simp add: status_mjs_def rate_limited_def or_else_def opt_prop_def)
  have m: "message_mjs rate_limited = Inr (JStr ''rate limited'')"
    by (simp add: message_mjs_def rate_limited_def or_else_def opt_prop_def get_prop_def)
  have ms: "to_string (JStr ''rate limited'') = Some ''rate limited''" by simp
  have c: "create ?rt args = Inl rate_limited" for args by (simp add: stub_runtime_sel)
  from upstream_failure_reported [OF sample_truthy up c c n]
  obtain message where j: "outcome (analyze_js ?rt sample_body) =
           Inr \<lparr>statusCode = 500,
                json = JObj [(''success'', JBool False),
                             (''error'',
                                if truthy (opt_prop ''message''
                                             (opt_prop ''error''
                                                (opt_prop ''data''
                                                   (property ''response'' rate_limited))))
                                then opt_prop ''message''
                                       (opt_prop ''error''
                                          (opt_prop ''data''
                                             (property ''response'' rate_limited)))
                                else if truthy (property ''message'' rate_limited)
                                then property ''message'' rate_limited
                                else JStr ''Failed to generate analysis.'')]\<rparr>"
    and mm: "message_mjs rate_limited = Inr message"
    and r: "\<forall>st m.
                 to_string (or_else (status_mjs rate_limited) (JStr ''unknown'')) = Some st \<and>
                 to_string message = Some m \<longrightarrow>
                 outcome (analyze_mjs ?rt sample_body) =
                   Inr \<lparr>statusCode = 500,
                        json = JObj [(''success'', JBool False),
                                     (''error'', JStr (''OpenAI error ('' @ st @ ''): '' @ m))]\<rparr>
                 \<and> sublist m (''OpenAI error ('' @ st @ ''): '' @ m)"
    by blast
  from mm m have "message = JStr ''rate limited''" by simp
  with r s ms have "outcome (analyze_mjs ?rt sample_body) =
                   Inr \<lparr>statusCode = 500,
                        json = JObj [(''success'', JBool False),
                                     (''error'',
                                        JStr (''OpenAI error ('' @ ''429'' @ ''): '' @ ''rate limited''))]\<rparr>
                 \<and> sublist ''rate limited'' (''OpenAI error ('' @ ''429'' @ ''): '' @ ''rate limited'')"
    by blast
  moreover from j have "outcome (analyze_js ?rt sample_body) =
       Inr \<lparr>statusCode = 500,
            json = JObj [(''success'', JBool False), (''error'', JStr ''rate limited'')]\<rparr>"
    by (simp add: rate_limited_def opt_prop_def)
  ultimately show ?thesis using n s m by simp
qed

text \<open>
  Claim C3 as it is stated fails on \<^verbatim>\<open>server.js\<close>: for a call rejected with status 429
  and message \<^verbatim>\<open>rate limited\<close> the status is known, and the \<^verbatim>\<open>error\<close> of the answer is
  \<^verbatim>\<open>rate limited\<close>, in which \<^verbatim>\<open>429\<close> does not occur.
\<close>

theorem js_error_omits_status:
  "property ''status'' rate_limited = JNum ''429''
   \<and> outcome (analyze_js (stub_runtime (Inl rate_limited)) sample_body) =
       Inr \<lparr>statusCode = 500,
            json = JObj [(''success'', JBool False), (''error'', JStr ''rate limited'')]\<rparr>
   \<and> \<not> sublist ''429'' ''rate limited''"
proof -
  have "outcome (analyze_js (stub_runtime (Inl rate_limited)) sample_body) =
       Inr \<lparr>statusCode = 500,
            json = JObj [(''success'', JBool False), (''error'', JStr ''rate limited'')]\<rparr>"
    by (simp add: analyze_js_def try_js_def catch_js_def sample_body_fields stub_runtime_sel
          userPrompt_def or_else_def get_prop_def opt_prop_def rate_limited_def
          res_status_json_def)
  moreover have "\<not> sublist ''429'' ''rate limited''"
    by (simp add: sublist_Cons_right)
  ultimately show ?thesis by (simp add: rate_limited_def)
qed

end
